theory Spec2Isabelle
  imports Complex_Main
begin

section \<open>Errors\<close>

text \<open>
  Every exception that ends a run of \<^verbatim>\<open>grid_tools.py\<close> is a value. A failed
  \<^verbatim>\<open>assert\<close> is \<open>AssertionError\<close>, the explicit \<^verbatim>\<open>raise RuntimeError()\<close> is
  \<open>RuntimeError\<close>; the other constructors are the exceptions of the library calls.
\<close>

datatype error =
    AssertionError
  | RuntimeError
  | KeyError
  | ValueError
  | TypeError
  | FileNotFoundError
  | ReadError
  | WriteError

section \<open>The mesh object of the mesh I/O library\<close>

text \<open>
  A \<^verbatim>\<open>meshio.Mesh\<close> holds the point array, the list of cell blocks (cell type and
  connectivity array) and the cell data: a dictionary from a field name to a list of tag
  arrays, one array per cell block, in the order of the blocks. Dictionaries are association
  lists read with \<open>map_of\<close>.
\<close>

type_synonym cell_block = "string \<times> nat list list"

record mesh =
  points :: "real list list"
  cells :: "cell_block list"
  cell_data :: "(string \<times> int list list) list"

text \<open>
  The consistency that the library keeps for each of its meshes: every field has one tag array
  per cell block, of the length of that block.
\<close>

definition mesh_ok :: "mesh \<Rightarrow> bool" where
  "mesh_ok m =
     list_all (\<lambda>(name, vl). list_all2 (\<lambda>v b. length v = length (snd b)) vl (cells m))
       (cell_data m)"

text \<open>Every point index of every cell refers to a point of the mesh.\<close>

definition cells_in_range :: "mesh \<Rightarrow> bool" where
  "cells_in_range m =
     list_all (\<lambda>b. list_all (\<lambda>c. list_all (\<lambda>i. i < length (points m)) c) (snd b)) (cells m)"

subsection \<open>The library's read access\<close>

text \<open>\<^verbatim>\<open>mesh.get_cells_type(t)\<close>: the cells of all blocks of type \<open>t\<close>, empty when there is none.\<close>

definition get_cells_type :: "mesh \<Rightarrow> string \<Rightarrow> nat list list" where
  "get_cells_type m t = concat (map snd (filter (\<lambda>b. fst b = t) (cells m)))"

text \<open>\<^verbatim>\<open>mesh.cells_dict\<close>: the cell types that have a block, each with its cells.\<close>

definition cells_dict :: "mesh \<Rightarrow> string \<rightharpoonup> nat list list" where
  "cells_dict m t =
     (if t \<in> set (map fst (cells m)) then Some (get_cells_type m t) else None)"

text \<open>
  The tag arrays of a field that stand beside a block of type \<open>t\<close>: the library pairs the
  blocks with the arrays of the field by \<^verbatim>\<open>zip\<close>.
\<close>

definition data_of_type :: "mesh \<Rightarrow> int list list \<Rightarrow> string \<Rightarrow> int list list" where
  "data_of_type m vl t = map snd (filter (\<lambda>(b, d). fst b = t) (zip (cells m) vl))"

text \<open>
  \<^verbatim>\<open>mesh.cell_data_dict\<close>: for each field, the cell types that have a tag array, each with
  its tags.
\<close>

definition cell_data_dict :: "mesh \<Rightarrow> string \<rightharpoonup> (string \<rightharpoonup> int list)" where
  "cell_data_dict m name =
     (case map_of (cell_data m) name of
        None \<Rightarrow> None
      | Some vl \<Rightarrow>
          Some (\<lambda>t. if data_of_type m vl t = [] then None
                     else Some (concat (data_of_type m vl t))))"

text \<open>
  \<^verbatim>\<open>mesh.get_cell_data(name, t)\<close> concatenates the tag arrays of the blocks of type \<open>t\<close>;
  a missing field is a \<open>KeyError\<close>, and concatenating no array at all is a \<open>ValueError\<close>.
\<close>

definition get_cell_data :: "mesh \<Rightarrow> string \<Rightarrow> string \<Rightarrow> error + int list" where
  "get_cell_data m name t =
     (case map_of (cell_data m) name of
        None \<Rightarrow> Inl KeyError
      | Some vl \<Rightarrow>
          if data_of_type m vl t = [] then Inl ValueError
          else Inr (concat (data_of_type m vl t)))"

subsection \<open>The library's constructor and \<^verbatim>\<open>prune_z_0\<close>\<close>

text \<open>
  \<^verbatim>\<open>meshio.Mesh(points=..., cells={t: cs}, cell_data={name: [tags]})\<close> makes one cell
  block and one field with one tag array. The constructor is given consistent arguments
  whenever the source mesh satisfies \<open>mesh_ok\<close> (lemma \<open>get_cell_data_length\<close> below);
  what it does with inconsistent ones differs between the versions of the library, and no
  theorem about failure is stated for them.
\<close>

definition Mesh :: "real list list \<Rightarrow> cell_block list \<Rightarrow> (string \<times> int list list) list \<Rightarrow> mesh" where
  "Mesh ps cs cd = \<lparr>points = ps, cells = cs, cell_data = cd\<rparr>"

text \<open>
  \<^verbatim>\<open>mesh.prune_z_0()\<close> removes the third component of the points if it is zero
  everywhere, up to the tolerance \<open>1e-13\<close>: the point array must have at least one row, three
  columns, and every third entry below the tolerance in absolute value. Otherwise the points
  stay as they are.
\<close>

definition tol :: real where
  "tol = 1 / 10 ^ 13"

definition z_is_0 :: "real list list \<Rightarrow> bool" where
  "z_is_0 ps =
     (ps \<noteq> [] \<and> list_all (\<lambda>p. length p = 3) ps \<and> list_all (\<lambda>p. \<bar>p ! 2\<bar> < tol) ps)"

definition prune_z_0 :: "mesh \<Rightarrow> mesh" where
  "prune_z_0 m = (if z_is_0 (points m) then m\<lparr>points := map (take 2) (points m)\<rparr> else m)"

section \<open>\<^verbatim>\<open>_create_meshio_mesh\<close>\<close>

text \<open>
  Lines 27 to 42: the name of the tag field of the new mesh, from the cell types the source
  mesh has and the cell type asked for.
\<close>

definition data_name :: "mesh \<Rightarrow> string \<Rightarrow> error + string" where
  "data_name m cell_type =
     (if cells_dict m ''triangle'' \<noteq> None \<and> cells_dict m ''tetra'' = None then
        (if cell_type = ''triangle'' then Inr ''cell_markers''
         else if cell_type = ''line'' then Inr ''facet_markers''
         else Inl RuntimeError)
      else if cells_dict m ''triangle'' \<noteq> None \<and> cells_dict m ''tetra'' \<noteq> None then
        (if cell_type = ''tetra'' then Inr ''cell_markers''
         else if cell_type = ''triangle'' then Inr ''facet_markers''
         else Inl RuntimeError)
      else Inl RuntimeError)"

definition create_meshio_mesh :: "mesh \<Rightarrow> string \<Rightarrow> bool \<Rightarrow> error + mesh" where
  "create_meshio_mesh m cell_type prune_z =
     (if cell_type \<notin> set [''line'', ''triangle'', ''tetra''] then Inl AssertionError
      else
        let cs = get_cells_type m cell_type in
        if cell_data_dict m ''gmsh:physical'' = None then Inl AssertionError
        else
          (case get_cell_data m ''gmsh:physical'' cell_type of
             Inl e \<Rightarrow> Inl e
           | Inr tags \<Rightarrow>
               (case data_name m cell_type of
                  Inl e \<Rightarrow> Inl e
                | Inr name \<Rightarrow>
                    let out_mesh = Mesh (points m) [(cell_type, cs)] [(name, [tags])]
                    in Inr (if prune_z then prune_z_0 out_mesh else out_mesh))))"

section \<open>\<^verbatim>\<open>_create_meshio_mesh\<close> on objects that share arrays\<close>

text \<open>
  In the source a mesh is an object that refers to its point array, and line 44 hands the
  point array of the source mesh to the new mesh: both objects then refer to the same array.
  The heap keeps the arrays and the mesh objects by address (the position in the list);
  allocation appends. The cells and tags of the new mesh are fresh arrays (the library
  concatenates), so they are kept by value. \<open>view\<close> reads a mesh object as a mesh.
\<close>

type_synonym addr = nat

record mesh_object =
  points_at :: addr
  cells_of :: "cell_block list"
  cell_data_of :: "(string \<times> int list list) list"

record heap =
  arrays :: "real list list list"
  objects :: "mesh_object list"

definition view :: "heap \<Rightarrow> addr \<Rightarrow> mesh option" where
  "view h a =
     (if a < length (objects h) \<and> points_at (objects h ! a) < length (arrays h)
      then Some \<lparr>points = arrays h ! points_at (objects h ! a),
                 cells = cells_of (objects h ! a),
                 cell_data = cell_data_of (objects h ! a)\<rparr>
      else None)"

text \<open>The constructor: a new object that refers to the point array it was given.\<close>

definition new_Mesh ::
  "heap \<Rightarrow> addr \<Rightarrow> cell_block list \<Rightarrow> (string \<times> int list list) list \<Rightarrow> addr \<times> heap" where
  "new_Mesh h ps cs cd =
     (length (objects h),
      h\<lparr>objects := objects h @ [\<lparr>points_at = ps, cells_of = cs, cell_data_of = cd\<rparr>]\<rparr>)"

text \<open>
  \<^verbatim>\<open>self.points = self.points[:, :2]\<close>: the object is bound to a new array of the first
  two columns; the array it referred to before is not written.
\<close>

definition prune_z_0_at :: "heap \<Rightarrow> addr \<Rightarrow> heap" where
  "prune_z_0_at h a =
     (let self = objects h ! a; ps = arrays h ! points_at self
      in if z_is_0 ps
         then h\<lparr>arrays := arrays h @ [map (take 2) ps],
                objects := (objects h)[a := self\<lparr>points_at := length (arrays h)\<rparr>]\<rparr>
         else h)"

text \<open>
  The function on the heap: \<open>a\<close> is the address of the source mesh; an address that holds
  no mesh fails the first assertion. The result is the address of the new mesh, with the heap
  after the call.
\<close>

definition create_meshio_mesh_at ::
  "heap \<Rightarrow> addr \<Rightarrow> string \<Rightarrow> bool \<Rightarrow> (error + addr) \<times> heap" where
  "create_meshio_mesh_at h a cell_type prune_z =
     (case view h a of
        None \<Rightarrow> (Inl AssertionError, h)
      | Some m \<Rightarrow>
          (if cell_type \<notin> set [''line'', ''triangle'', ''tetra''] then (Inl AssertionError, h)
           else
             let cs = get_cells_type m cell_type in
             if cell_data_dict m ''gmsh:physical'' = None then (Inl AssertionError, h)
             else
               (case get_cell_data m ''gmsh:physical'' cell_type of
                  Inl e \<Rightarrow> (Inl e, h)
                | Inr tags \<Rightarrow>
                    (case data_name m cell_type of
                       Inl e \<Rightarrow> (Inl e, h)
                     | Inr name \<Rightarrow>
                         let (out_mesh, h1) =
                               new_Mesh h (points_at (objects h ! a)) [(cell_type, cs)]
                                 [(name, [tags])]
                         in (Inr out_mesh,
                             if prune_z then prune_z_0_at h1 out_mesh else h1)))))"

section \<open>Dimension and cell types (lines 94 to 110 of \<^verbatim>\<open>generate_xdmf_mesh\<close>)\<close>

text \<open>
  \<^verbatim>\<open>t in mesh.cell_data_dict["gmsh:physical"]\<close>: a \<open>KeyError\<close> when the mesh has no such
  field.
\<close>

definition has_physical :: "mesh \<Rightarrow> string \<Rightarrow> error + bool" where
  "has_physical m t =
     (case cell_data_dict m ''gmsh:physical'' of
        None \<Rightarrow> Inl KeyError
      | Some d \<Rightarrow> Inr (d t \<noteq> None))"

definition determine_dimension :: "mesh \<Rightarrow> error + nat" where
  "determine_dimension m =
     (if cells_dict m ''triangle'' \<noteq> None \<and> cells_dict m ''tetra'' = None then
        (case has_physical m ''line'' of
           Inl e \<Rightarrow> Inl e
         | Inr b \<Rightarrow> if b then Inr 2 else Inl AssertionError)
      else if cells_dict m ''triangle'' \<noteq> None \<and> cells_dict m ''tetra'' \<noteq> None then
        (case has_physical m ''triangle'' of
           Inl e \<Rightarrow> Inl e
         | Inr b \<Rightarrow> if b then Inr 3 else Inl AssertionError)
      else Inl RuntimeError)"

text \<open>The triple is \<open>(facet_type, cell_type, prune_z)\<close>; the dimension \<open>n\<close> is 2 or 3 here.\<close>

record cell_types =
  facet_type :: string
  body_type :: string
  prune :: bool

definition specify_cell_types :: "nat \<Rightarrow> cell_types" where
  "specify_cell_types n =
     (if n = 2 then \<lparr>facet_type = ''line'', body_type = ''triangle'', prune = True\<rparr>
      else \<lparr>facet_type = ''triangle'', body_type = ''tetra'', prune = False\<rparr>)"

text \<open>Lines 94 to 110 as one step: the dimension with the cell types chosen for it.\<close>

definition dimension_and_cell_types :: "mesh \<Rightarrow> error + nat \<times> cell_types" where
  "dimension_and_cell_types m =
     (case determine_dimension m of
        Inl e \<Rightarrow> Inl e
      | Inr n \<Rightarrow> Inr (n, specify_cell_types n))"

section \<open>Strings and paths\<close>

text \<open>
  \<^verbatim>\<open>s.replace(old, new)\<close> for a pattern \<open>old\<close> that is not empty (the source's
  patterns are \<^verbatim>\<open>".geo"\<close> and \<^verbatim>\<open>".msh"\<close>): every occurrence of \<open>old\<close> is replaced,
  from left to right, without overlap. The counter is the number of characters of a matched
  occurrence that are still to be skipped.
\<close>

fun replace_go :: "string \<Rightarrow> string \<Rightarrow> nat \<Rightarrow> string \<Rightarrow> string" where
  "replace_go old new k [] = []"
| "replace_go old new (Suc k) (c # s) = replace_go old new k s"
| "replace_go old new 0 (c # s) =
     (if take (length old) (c # s) = old then new @ replace_go old new (length old - 1) s
      else c # replace_go old new 0 s)"

definition str_replace :: "string \<Rightarrow> string \<Rightarrow> string \<Rightarrow> string" where
  "str_replace old new s = replace_go old new 0 s"

text \<open>\<^verbatim>\<open>b in f\<close> on strings: \<open>b\<close> occurs in \<open>f\<close>.\<close>

fun is_in :: "string \<Rightarrow> string \<Rightarrow> bool" where
  "is_in b [] = (b = [])"
| "is_in b (c # s) = (take (length b) (c # s) = b \<or> is_in b s)"

text \<open>\<^verbatim>\<open>path.basename(p)\<close>: what follows the last \<^verbatim>\<open>/\<close>.\<close>

definition path_basename :: "string \<Rightarrow> string" where
  "path_basename p = rev (takeWhile (\<lambda>c. c \<noteq> CHR ''/'') (rev p))"

text \<open>
  \<^verbatim>\<open>path.splitext(p)[1]\<close>: the extension starts at the last dot of the base name, unless
  only dots stand before it there; then the extension is empty.
\<close>

definition splitext_ext :: "string \<Rightarrow> string" where
  "splitext_ext p =
     (let rest = dropWhile (\<lambda>c. c = CHR ''.'') (path_basename p)
      in if CHR ''.'' \<in> set rest
         then CHR ''.'' # rev (takeWhile (\<lambda>c. c \<noteq> CHR ''.'') (rev rest))
         else [])"

section \<open>The file system, the mesh generator and the mesh files\<close>

text \<open>
  What the run reads from its surroundings and writes to them. A file is a native mesh file
  that parses to a mesh, an output file holding the mesh that was written, or anything else.
  \<open>glob\<close> is the enumeration of the file system by pattern, \<open>gmsh\<close> what a run of the
  generator on a geometry file does (the files it writes), \<open>writable\<close> the paths that
  can be written. \<open>log\<close> records the steps of a run in their order.
\<close>

datatype file_content = Msh_file mesh | Xdmf_file mesh | Other_file

datatype gmsh_result = Not_installed | Exit_failure | Exit_ok "(string \<times> file_content) list"

datatype event = Ran_gmsh string | Read_mesh string | Built string | Wrote string

record world =
  files :: "string \<rightharpoonup> file_content"
  glob :: "string \<Rightarrow> string list"
  gmsh :: "string \<Rightarrow> gmsh_result"
  writable :: "string \<Rightarrow> bool"
  log :: "event list"

definition path_exists :: "world \<Rightarrow> string \<Rightarrow> bool" where
  "path_exists w p = (files w p \<noteq> None)"

text \<open>
  \<^verbatim>\<open>subprocess.run(["gmsh", geo_file, "-3"], check=True)\<close>: a missing program is a
  \<open>FileNotFoundError\<close>, which the handler for \<^verbatim>\<open>SubprocessError\<close> does not catch; a
  non-zero exit becomes the \<open>RuntimeError\<close> of the handler.
\<close>

definition run_gmsh :: "world \<Rightarrow> string \<Rightarrow> error option \<times> world" where
  "run_gmsh w geo_file =
     (case gmsh w geo_file of
        Not_installed \<Rightarrow> (Some FileNotFoundError, w)
      | Exit_failure \<Rightarrow> (Some RuntimeError, w\<lparr>log := log w @ [Ran_gmsh geo_file]\<rparr>)
      | Exit_ok new \<Rightarrow>
          (None, w\<lparr>files := files w ++ map_of new, log := log w @ [Ran_gmsh geo_file]\<rparr>))"

text \<open>\<^verbatim>\<open>meshio.read(p)\<close> parses a native mesh file.\<close>

definition meshio_read :: "world \<Rightarrow> string \<Rightarrow> (error + mesh) \<times> world" where
  "meshio_read w p =
     (case files w p of
        Some (Msh_file m) \<Rightarrow> (Inr m, w\<lparr>log := log w @ [Read_mesh p]\<rparr>)
      | _ \<Rightarrow> (Inl ReadError, w))"

text \<open>\<^verbatim>\<open>meshio.write(p, mesh, data_format="XML")\<close> writes one output file.\<close>

definition meshio_write :: "world \<Rightarrow> string \<Rightarrow> mesh \<Rightarrow> error option \<times> world" where
  "meshio_write w p m =
     (if writable w p
      then (None, w\<lparr>files := (files w)(p \<mapsto> Xdmf_file m), log := log w @ [Wrote p]\<rparr>)
      else (Some WriteError, w))"

section \<open>\<^verbatim>\<open>_locate_file\<close>\<close>

text \<open>The loop over the files found: the first one whose path contains the name.\<close>

fun first_containing :: "string \<Rightarrow> string list \<Rightarrow> string option" where
  "first_containing basename [] = None"
| "first_containing basename (f # fs) =
     (if is_in basename f then Some f else first_containing basename fs)"

definition locate_file :: "world \<Rightarrow> string \<Rightarrow> error + string option" where
  "locate_file w basename =
     (let file_extension = splitext_ext basename;
          fs = glob w (''../*/*/*'' @ file_extension)
             @ glob w (''./*/*'' @ file_extension)
             @ glob w (''./*/*/*'' @ file_extension)
      in case first_containing basename fs of
           None \<Rightarrow> Inr None
         | Some f \<Rightarrow> if path_exists w f then Inr (Some f) else Inl AssertionError)"

section \<open>\<^verbatim>\<open>generate_xdmf_mesh\<close>\<close>

text \<open>
  Lines 90 to 119, from the check that the mesh file exists to the return. \<open>msh_file\<close> is
  what \<^verbatim>\<open>_locate_file\<close> returned: the source does not assign it again after the
  generator has run, and \<^verbatim>\<open>path.exists(None)\<close> is a \<open>TypeError\<close>.
\<close>

definition facet_marker_path :: "string \<Rightarrow> string" where
  "facet_marker_path msh_file = str_replace ''.msh'' ''_facet_markers.xdmf'' msh_file"

definition xdmf_path :: "string \<Rightarrow> string" where
  "xdmf_path msh_file = str_replace ''.msh'' ''.xdmf'' msh_file"

definition built :: "world \<Rightarrow> string \<Rightarrow> world" where
  "built w t = w\<lparr>log := log w @ [Built t]\<rparr>"

definition read_and_write :: "world \<Rightarrow> string option \<Rightarrow> (error + string \<times> string) \<times> world" where
  "read_and_write w msh_file =
     (case msh_file of
        None \<Rightarrow> (Inl TypeError, w)
      | Some p \<Rightarrow>
          (if \<not> path_exists w p then (Inl AssertionError, w)
           else
             (case meshio_read w p of
                (Inl e, w1) \<Rightarrow> (Inl e, w1)
              | (Inr mesh, w1) \<Rightarrow>
                  (case dimension_and_cell_types mesh of
                     Inl e \<Rightarrow> (Inl e, w1)
                   | Inr (n, ct) \<Rightarrow>
                       (case create_meshio_mesh mesh (facet_type ct) (prune ct) of
                          Inl e \<Rightarrow> (Inl e, w1)
                        | Inr facet_mesh \<Rightarrow>
                            (case meshio_write (built w1 (facet_type ct))
                                    (facet_marker_path p) facet_mesh of
                               (Some e, w2) \<Rightarrow> (Inl e, w2)
                             | (None, w2) \<Rightarrow>
                                 (case create_meshio_mesh mesh (body_type ct) (prune ct) of
                                    Inl e \<Rightarrow> (Inl e, w2)
                                  | Inr cell_mesh \<Rightarrow>
                                      (case meshio_write (built w2 (body_type ct))
                                              (xdmf_path p) cell_mesh of
                                         (Some e, w3) \<Rightarrow> (Inl e, w3)
                                       | (None, w3) \<Rightarrow>
                                           (Inr (xdmf_path p, facet_marker_path p),
                                            w3)))))))))"

definition generate_xdmf_mesh :: "world \<Rightarrow> string \<Rightarrow> (error + string \<times> string) \<times> world" where
  "generate_xdmf_mesh w geo_file =
     (if \<not> path_exists w geo_file then (Inl AssertionError, w)
      else if splitext_ext geo_file \<noteq> ''.geo'' then (Inl AssertionError, w)
      else
        let basename = path_basename geo_file in
        (case locate_file w (str_replace ''.geo'' ''.msh'' basename) of
           Inl e \<Rightarrow> (Inl e, w)
         | Inr msh_file \<Rightarrow>
             (case (if msh_file = None then run_gmsh w geo_file else (None, w)) of
                (Some e, w1) \<Rightarrow> (Inl e, w1)
              | (None, w1) \<Rightarrow> read_and_write w1 msh_file)))"

section \<open>Example inputs\<close>

text \<open>
  A planar mesh (two boundary lines and a triangle), a volume mesh (a boundary triangle and a
  tetrahedron) and a mesh of one tetrahedron without any triangle.
\<close>

definition mesh_2d :: mesh where
  "mesh_2d =
     \<lparr>points = [[0, 0, 0], [1, 0, 0], [0, 1, 0]],
      cells = [(''line'', [[0, 1], [1, 2]]), (''triangle'', [[0, 1, 2]])],
      cell_data = [(''gmsh:physical'', [[2, 2], [1]])]\<rparr>"

definition mesh_3d :: mesh where
  "mesh_3d =
     \<lparr>points = [[0, 0, 0], [1, 0, 0], [0, 1, 0], [0, 0, 1]],
      cells = [(''triangle'', [[0, 1, 2]]), (''tetra'', [[0, 1, 2, 3]])],
      cell_data = [(''gmsh:physical'', [[2], [1]])]\<rparr>"

definition mesh_tetra_only :: mesh where
  "mesh_tetra_only =
     \<lparr>points = [[0, 0, 0], [1, 0, 0], [0, 1, 0], [0, 0, 1]],
      cells = [(''tetra'', [[0, 1, 2, 3]])],
      cell_data = [(''gmsh:physical'', [[1]])]\<rparr>"

text \<open>
  A planar mesh whose block of lines is empty; a triangulated surface that leaves the plane
  (the third coordinate of its last point is 1); a volume mesh that also has a tagged line.
\<close>

definition mesh_empty_lines :: mesh where
  "mesh_empty_lines =
     \<lparr>points = [[0, 0, 0], [1, 0, 0], [0, 1, 0]],
      cells = [(''line'', []), (''triangle'', [[0, 1, 2]])],
      cell_data = [(''gmsh:physical'', [[], [1]])]\<rparr>"

definition mesh_surface :: mesh where
  "mesh_surface =
     \<lparr>points = [[0, 0, 0], [1, 0, 0], [0, 1, 1]],
      cells = [(''line'', [[0, 1]]), (''triangle'', [[0, 1, 2]])],
      cell_data = [(''gmsh:physical'', [[2], [1]])]\<rparr>"

definition mesh_3d_lines :: mesh where
  "mesh_3d_lines =
     \<lparr>points = [[0, 0, 0], [1, 0, 0], [0, 1, 0], [0, 0, 1]],
      cells = [(''line'', [[0, 1]]), (''triangle'', [[0, 1, 2]]), (''tetra'', [[0, 1, 2, 3]])],
      cell_data = [(''gmsh:physical'', [[3], [2], [1]])]\<rparr>"

text \<open>
  Runs of the tool on \<^verbatim>\<open>model.geo\<close>: with a mesh file that is found in a sub-directory;
  with the same file when the body output cannot be written; with no mesh file to be found and
  a generator that writes one; and with the mesh file in a directory whose name contains
  \<^verbatim>\<open>.msh\<close>.
\<close>

definition world_located :: world where
  "world_located =
     \<lparr>files = [''model.geo'' \<mapsto> Other_file, ''./meshes/model.msh'' \<mapsto> Msh_file mesh_2d],
      glob = (\<lambda>pat. if pat = ''./*/*.msh'' then [''./meshes/model.msh''] else []),
      gmsh = (\<lambda>g. Not_installed),
      writable = (\<lambda>p. True),
      log = []\<rparr>"

definition world_body_unwritable :: world where
  "world_body_unwritable =
     \<lparr>files = [''model.geo'' \<mapsto> Other_file, ''./meshes/model.msh'' \<mapsto> Msh_file mesh_2d],
      glob = (\<lambda>pat. if pat = ''./*/*.msh'' then [''./meshes/model.msh''] else []),
      gmsh = (\<lambda>g. Not_installed),
      writable = (\<lambda>p. p \<noteq> ''./meshes/model.xdmf''),
      log = []\<rparr>"

definition world_generated :: world where
  "world_generated =
     \<lparr>files = [''model.geo'' \<mapsto> Other_file],
      glob = (\<lambda>pat. []),
      gmsh = (\<lambda>g. Exit_ok [(''model.msh'', Msh_file mesh_2d)]),
      writable = (\<lambda>p. True),
      log = []\<rparr>"

definition world_dotted :: world where
  "world_dotted =
     \<lparr>files = [''model.geo'' \<mapsto> Other_file, ''./run.msh.d/model.msh'' \<mapsto> Msh_file mesh_2d],
      glob = (\<lambda>pat. if pat = ''./*/*.msh'' then [''./run.msh.d/model.msh''] else []),
      gmsh = (\<lambda>g. Not_installed),
      writable = (\<lambda>p. True),
      log = []\<rparr>"

text \<open>A heap with the planar mesh as its only object.\<close>

definition heap_2d :: heap where
  "heap_2d =
     \<lparr>arrays = [[[0, 0, 0], [1, 0, 0], [0, 1, 0]]],
      objects = [\<lparr>points_at = 0,
                  cells_of = [(''line'', [[0, 1], [1, 2]]), (''triangle'', [[0, 1, 2]])],
                  cell_data_of = [(''gmsh:physical'', [[2, 2], [1]])]\<rparr>]\<rparr>"

section \<open>Dimension and cell-type inference\<close>

text \<open>
  Claim C1. The inference of lines 94 to 110 is a decision table. A mesh with triangle cells,
  no tetra cells and a line entry in its tag field gives dimension 2, body type triangle,
  facet type line and pruning; a mesh with triangle and tetra cells and a triangle entry in
  its tag field gives dimension 3, body type tetra, facet type triangle and no pruning; a mesh
  that matches neither row makes the inference fail.
\<close>

theorem inference_decision_table:
  "(cells_dict m ''triangle'' \<noteq> None \<and> cells_dict m ''tetra'' = None
      \<and> has_physical m ''line'' = Inr True \<longrightarrow>
      dimension_and_cell_types m =
        Inr (2, \<lparr>facet_type = ''line'', body_type = ''triangle'', prune = True\<rparr>))
   \<and> (cells_dict m ''triangle'' \<noteq> None \<and> cells_dict m ''tetra'' \<noteq> None
      \<and> has_physical m ''triangle'' = Inr True \<longrightarrow>
      dimension_and_cell_types m =
        Inr (3, \<lparr>facet_type = ''triangle'', body_type = ''tetra'', prune = False\<rparr>))
   \<and> (\<not> (cells_dict m ''triangle'' \<noteq> None \<and> cells_dict m ''tetra'' = None
           \<and> has_physical m ''line'' = Inr True)
      \<and> \<not> (cells_dict m ''triangle'' \<noteq> None \<and> cells_dict m ''tetra'' \<noteq> None
           \<and> has_physical m ''triangle'' = Inr True) \<longrightarrow>
      isl (dimension_and_cell_types m))"
  by (auto simp: dimension_and_cell_types_def determine_dimension_def specify_cell_types_def
      split: sum.splits)

theorem inference_decision_table_witness:
  "(cells_dict mesh_2d ''triangle'' \<noteq> None \<and> cells_dict mesh_2d ''tetra'' = None
      \<and> has_physical mesh_2d ''line'' = Inr True)
   \<and> dimension_and_cell_types mesh_2d =
        Inr (2, \<lparr>facet_type = ''line'', body_type = ''triangle'', prune = True\<rparr>)
   \<and> (cells_dict mesh_3d ''triangle'' \<noteq> None \<and> cells_dict mesh_3d ''tetra'' \<noteq> None
      \<and> has_physical mesh_3d ''triangle'' = Inr True)
   \<and> dimension_and_cell_types mesh_3d =
        Inr (3, \<lparr>facet_type = ''triangle'', body_type = ''tetra'', prune = False\<rparr>)
   \<and> cells_dict mesh_tetra_only ''triangle'' = None
   \<and> isl (dimension_and_cell_types mesh_tetra_only)"
proof -
  have a: "cells_dict mesh_2d ''triangle'' \<noteq> None \<and> cells_dict mesh_2d ''tetra'' = None
      \<and> has_physical mesh_2d ''line'' = Inr True"
    by (simp add: mesh_2d_def cells_dict_def has_physical_def cell_data_dict_def
        data_of_type_def)
  have b: "cells_dict mesh_3d ''triangle'' \<noteq> None \<and> cells_dict mesh_3d ''tetra'' \<noteq> None
      \<and> has_physical mesh_3d ''triangle'' = Inr True"
    by (simp add: mesh_3d_def cells_dict_def has_physical_def cell_data_dict_def
        data_of_type_def)
  have c: "cells_dict mesh_tetra_only ''triangle'' = None"
    by (simp add: mesh_tetra_only_def cells_dict_def)
  from a b c inference_decision_table [of mesh_2d] inference_decision_table [of mesh_3d]
    inference_decision_table [of mesh_tetra_only]
  show ?thesis by blast
qed

section \<open>Facts about the library operations and \<^verbatim>\<open>_create_meshio_mesh\<close>\<close>

lemmas eval_defs = cells_dict_def get_cells_type_def cell_data_dict_def data_of_type_def
  get_cell_data_def data_name_def create_meshio_mesh_def Mesh_def prune_z_0_def
  z_is_0_def tol_def

lemma prune_z_0_cells [simp]: "cells (prune_z_0 m) = cells m"
  by (simp add: prune_z_0_def)

lemma prune_z_0_cell_data [simp]: "cell_data (prune_z_0 m) = cell_data m"
  by (simp add: prune_z_0_def)

lemma prune_z_0_length [simp]: "length (points (prune_z_0 m)) = length (points m)"
  by (simp add: prune_z_0_def)

lemma z_is_0_row:
  assumes "z_is_0 ps" and "p \<in> set ps"
  shows "\<exists>x y z. p = [x, y, z] \<and> \<bar>z\<bar> < tol"
proof -
  from assms have l: "length p = 3" and a: "\<bar>p ! 2\<bar> < tol"
    by (auto simp: z_is_0_def list_all_iff)
  from l obtain x y z where "p = [x, y, z]"
    by (cases p; cases "tl p"; cases "tl (tl p)") auto
  with a show ?thesis by auto
qed

text \<open>What a successful call has computed.\<close>

lemma create_meshio_mesh_Inr:
  assumes "create_meshio_mesh m t pz = Inr out"
  shows "\<exists>name tags. t \<in> {''line'', ''triangle'', ''tetra''}
           \<and> get_cell_data m ''gmsh:physical'' t = Inr tags
           \<and> data_name m t = Inr name
           \<and> cells out = [(t, get_cells_type m t)]
           \<and> cell_data out = [(name, [tags])]
           \<and> points out = (if pz then points (prune_z_0 (Mesh (points m) [] [])) else points m)"
  using assms
  by (auto simp: create_meshio_mesh_def Let_def Mesh_def prune_z_0_def
      split: if_splits sum.splits)

lemma data_name_cases:
  "data_name m t = Inr name \<Longrightarrow>
     name = (if t = (if cells_dict m ''tetra'' = None then ''triangle'' else ''tetra'')
             then ''cell_markers'' else ''facet_markers'')"
  by (auto simp: data_name_def split: if_splits)

lemma data_name_Inl:
  "isl (data_name m t) \<longleftrightarrow>
     \<not> (cells_dict m ''triangle'' \<noteq> None \<and> cells_dict m ''tetra'' = None
          \<and> (t = ''triangle'' \<or> t = ''line'')
        \<or> cells_dict m ''triangle'' \<noteq> None \<and> cells_dict m ''tetra'' \<noteq> None
          \<and> (t = ''tetra'' \<or> t = ''triangle''))"
proof -
  consider "t = ''triangle''" | "t = ''line''" | "t = ''tetra''"
    | "t \<noteq> ''triangle''" "t \<noteq> ''line''" "t \<noteq> ''tetra''"
    by blast
  then show ?thesis
  proof cases
    case 1 then show ?thesis by (simp add: data_name_def)
  next
    case 2 then show ?thesis by (simp add: data_name_def)
  next
    case 3 then show ?thesis by (simp add: data_name_def)
  next
    case 4 then show ?thesis by (simp add: data_name_def)
  qed
qed

text \<open>In a consistent mesh the tags of a cell type are as many as its cells.\<close>

lemma data_of_type_length:
  "list_all2 (\<lambda>v b. length v = length (snd b)) vl cs \<Longrightarrow>
   length (concat (map snd (filter (\<lambda>(b, d). fst b = t) (zip cs vl))))
     = length (concat (map snd (filter (\<lambda>b. fst b = t) cs)))"
  by (induction vl cs rule: list_all2_induct) auto

lemma mesh_ok_field:
  "mesh_ok m \<Longrightarrow> map_of (cell_data m) name = Some vl \<Longrightarrow>
   list_all2 (\<lambda>v b. length v = length (snd b)) vl (cells m)"
  by (auto simp: mesh_ok_def list_all_iff dest!: map_of_SomeD)

lemma get_cell_data_length:
  assumes "mesh_ok m" and "get_cell_data m name t = Inr tags"
  shows "length tags = length (get_cells_type m t)"
proof -
  from assms(2) obtain vl where vl: "map_of (cell_data m) name = Some vl"
    and tags: "tags = concat (data_of_type m vl t)"
    by (auto simp: get_cell_data_def split: option.splits if_splits)
  from mesh_ok_field [OF assms(1) vl] show ?thesis
    unfolding tags data_of_type_def get_cells_type_def by (rule data_of_type_length)
qed

lemma get_cells_type_in_range:
  "cells_in_range m \<Longrightarrow> c \<in> set (get_cells_type m t) \<Longrightarrow> i \<in> set c \<Longrightarrow> i < length (points m)"
  by (auto simp: cells_in_range_def get_cells_type_def list_all_iff)

text \<open>The tag field has an entry for a cell type exactly when its tags can be read.\<close>

lemma has_physical_get_cell_data:
  "has_physical m t = Inr True \<longleftrightarrow> (\<exists>tags. get_cell_data m ''gmsh:physical'' t = Inr tags)"
  by (auto simp: has_physical_def get_cell_data_def cell_data_dict_def split: option.splits)

lemma has_physical_field:
  "has_physical m t = Inr True \<Longrightarrow> cell_data_dict m ''gmsh:physical'' \<noteq> None"
  by (auto simp: has_physical_def split: option.splits)

lemma create_meshio_mesh_unfold:
  assumes "t \<in> set [''line'', ''triangle'', ''tetra'']"
    and "cell_data_dict m ''gmsh:physical'' \<noteq> None"
    and "get_cell_data m ''gmsh:physical'' t = Inr tags"
  shows "create_meshio_mesh m t pz =
           (case data_name m t of
              Inl e \<Rightarrow> Inl e
            | Inr name \<Rightarrow>
                Inr (if pz
                     then prune_z_0 (Mesh (points m) [(t, get_cells_type m t)] [(name, [tags])])
                     else Mesh (points m) [(t, get_cells_type m t)] [(name, [tags])]))"
  unfolding create_meshio_mesh_def Let_def
  by (simp only: assms not_True_eq_False not_False_eq_True if_False if_True sum.case)

lemma create_meshio_mesh_unsupported:
  "t \<notin> set [''line'', ''triangle'', ''tetra''] \<Longrightarrow> create_meshio_mesh m t pz = Inl AssertionError"
  unfolding create_meshio_mesh_def by (simp only: simp_thms if_True)

lemma create_meshio_mesh_no_tags:
  assumes "has_physical m t \<noteq> Inr True"
  shows "isl (create_meshio_mesh m t pz)"
proof (cases "cell_data_dict m ''gmsh:physical''")
  case None
  then show ?thesis unfolding create_meshio_mesh_def Let_def
    by (simp only: if_True simp_thms sum.disc split: if_split)
next
  case (Some d)
  with assms have "d t = None" by (simp add: has_physical_def)
  with Some obtain e where "get_cell_data m ''gmsh:physical'' t = Inl e"
    by (auto simp: get_cell_data_def cell_data_dict_def split: option.splits if_splits)
  then show ?thesis unfolding create_meshio_mesh_def Let_def
    by (simp only: sum.case sum.disc simp_thms split: if_split)
qed

section \<open>The name of the tag field\<close>

text \<open>
  Claim C2. The tag field of an extracted sub-mesh is named by the role of the cell type in
  the source mesh, not by the cell type: the body type of the inferred dimension gives
  \<open>cell_markers\<close>, the facet type gives \<open>facet_markers\<close>. The body type is triangle in a
  mesh without tetra cells and tetra otherwise, so triangle gets \<open>cell_markers\<close> in the
  first kind of mesh and \<open>facet_markers\<close> in the second.
\<close>

theorem field_named_by_role:
  assumes "create_meshio_mesh m t pz = Inr out"
  shows "map fst (cell_data out) =
           [if t = (if cells_dict m ''tetra'' = None then ''triangle'' else ''tetra'')
            then ''cell_markers'' else ''facet_markers'']
       \<and> (dimension_and_cell_types m = Inr (n, ct) \<and> t = body_type ct \<longrightarrow>
            map fst (cell_data out) = [''cell_markers''])
       \<and> (dimension_and_cell_types m = Inr (n, ct) \<and> t = facet_type ct \<longrightarrow>
            map fst (cell_data out) = [''facet_markers''])
       \<and> (t = ''triangle'' \<and> cells_dict m ''tetra'' = None \<longrightarrow>
            map fst (cell_data out) = [''cell_markers''])
       \<and> (t = ''triangle'' \<and> cells_dict m ''tetra'' \<noteq> None \<longrightarrow>
            map fst (cell_data out) = [''facet_markers''])"
proof -
  from create_meshio_mesh_Inr [OF assms] obtain name tags where
    dn: "data_name m t = Inr name" and cd: "cell_data out = [(name, [tags])]"
    by blast
  have nm: "name = (if t = (if cells_dict m ''tetra'' = None then ''triangle'' else ''tetra'')
             then ''cell_markers'' else ''facet_markers'')"
    using dn by (rule data_name_cases)
  have body: "cells_dict m ''tetra'' = None \<longleftrightarrow> body_type ct = ''triangle''"
    and "body_type ct = ''triangle'' \<or> body_type ct = ''tetra''"
    and "facet_type ct \<noteq> body_type ct"
    and "body_type ct = ''triangle'' \<longrightarrow> facet_type ct = ''line''"
    and "body_type ct = ''tetra'' \<longrightarrow> facet_type ct = ''triangle''"
    if "dimension_and_cell_types m = Inr (n, ct)"
    using that
    by (auto simp: dimension_and_cell_types_def determine_dimension_def specify_cell_types_def
        split: sum.splits if_splits)
  then show ?thesis using cd nm by auto
qed

theorem field_named_by_role_witness:
  "create_meshio_mesh mesh_2d ''triangle'' True =
     Inr \<lparr>points = [[0, 0], [1, 0], [0, 1]], cells = [(''triangle'', [[0, 1, 2]])],
          cell_data = [(''cell_markers'', [[1]])]\<rparr>
   \<and> create_meshio_mesh mesh_3d ''triangle'' False =
     Inr \<lparr>points = [[0, 0, 0], [1, 0, 0], [0, 1, 0], [0, 0, 1]],
          cells = [(''triangle'', [[0, 1, 2]])],
          cell_data = [(''facet_markers'', [[2]])]\<rparr>
   \<and> cells_dict mesh_2d ''tetra'' = None \<and> cells_dict mesh_3d ''tetra'' \<noteq> None"
proof -
  have a: "create_meshio_mesh mesh_2d ''triangle'' True =
     Inr \<lparr>points = [[0, 0], [1, 0], [0, 1]], cells = [(''triangle'', [[0, 1, 2]])],
          cell_data = [(''cell_markers'', [[1]])]\<rparr>"
    by (simp add: mesh_2d_def eval_defs)
  have b: "create_meshio_mesh mesh_3d ''triangle'' False =
     Inr \<lparr>points = [[0, 0, 0], [1, 0, 0], [0, 1, 0], [0, 0, 1]],
          cells = [(''triangle'', [[0, 1, 2]])],
          cell_data = [(''facet_markers'', [[2]])]\<rparr>"
    by (simp add: mesh_3d_def eval_defs)
  have c: "cells_dict mesh_2d ''tetra'' = None \<and> cells_dict mesh_3d ''tetra'' \<noteq> None"
    by (simp add: mesh_2d_def mesh_3d_def cells_dict_def)
  from field_named_by_role [OF a] field_named_by_role [OF b] a b c show ?thesis by simp
qed

section \<open>The shape of an extracted sub-mesh\<close>

text \<open>
  Claim C5. For a mesh as the library holds it (the tag arrays stand beside the cell blocks
  with equal lengths, and the cells refer to points of the mesh) and a call that returns, the
  sub-mesh has exactly one cell block, the cells of the type asked for; exactly one tag field,
  whose value is the tag sequence wrapped as a list of length one; as many tags as cells, also
  when there is no cell; as many points as the source, each one the source's point of the same
  index (whole or cut to two coordinates); and every point index of its cells in range.
\<close>

theorem sub_mesh_invariant:
  assumes "mesh_ok m" and "cells_in_range m" and "create_meshio_mesh m t pz = Inr out"
  shows "\<exists>name tags.
           cells out = [(t, get_cells_type m t)]
         \<and> cell_data out = [(name, [tags])]
         \<and> length tags = length (get_cells_type m t)
         \<and> length (points out) = length (points m)
         \<and> (\<forall>i < length (points m).
               points out ! i = points m ! i \<or> points out ! i = take 2 (points m ! i))
         \<and> (\<forall>c \<in> set (get_cells_type m t). \<forall>i \<in> set c. i < length (points out))
         \<and> mesh_ok out \<and> cells_in_range out"
proof -
  from create_meshio_mesh_Inr [OF assms(3)] obtain name tags where
    gd: "get_cell_data m ''gmsh:physical'' t = Inr tags"
    and cs: "cells out = [(t, get_cells_type m t)]"
    and cd: "cell_data out = [(name, [tags])]"
    and ps: "points out = (if pz then points (prune_z_0 (Mesh (points m) [] [])) else points m)"
    by blast
  have len: "length tags = length (get_cells_type m t)"
    using assms(1) gd by (rule get_cell_data_length)
  have lp: "length (points out) = length (points m)"
    using ps by (simp add: Mesh_def)
  have pts: "\<forall>i < length (points m).
               points out ! i = points m ! i \<or> points out ! i = take 2 (points m ! i)"
    using ps by (simp add: Mesh_def prune_z_0_def)
  have rng: "\<forall>c \<in> set (get_cells_type m t). \<forall>i \<in> set c. i < length (points out)"
    using get_cells_type_in_range [OF assms(2)] lp by auto
  have ok: "mesh_ok out"
    using cs cd len by (simp add: mesh_ok_def)
  have cr: "cells_in_range out"
    using cs rng by (simp add: cells_in_range_def list_all_iff)
  from cs cd len lp pts rng ok cr show ?thesis by blast
qed

theorem sub_mesh_invariant_witness:
  "mesh_ok mesh_empty_lines \<and> cells_in_range mesh_empty_lines
   \<and> create_meshio_mesh mesh_empty_lines ''line'' True =
       Inr \<lparr>points = [[0, 0], [1, 0], [0, 1]], cells = [(''line'', [])],
            cell_data = [(''facet_markers'', [[]])]\<rparr>
   \<and> get_cells_type mesh_empty_lines ''line'' = []
   \<and> mesh_ok \<lparr>points = [[0, 0], [1, 0], [0, 1]], cells = [(''line'', [])],
            cell_data = [(''facet_markers'', [[]])]\<rparr>
   \<and> mesh_ok mesh_3d \<and> cells_in_range mesh_3d
   \<and> create_meshio_mesh mesh_3d ''tetra'' False =
       Inr \<lparr>points = [[0, 0, 0], [1, 0, 0], [0, 1, 0], [0, 0, 1]],
            cells = [(''tetra'', [[0, 1, 2, 3]])],
            cell_data = [(''cell_markers'', [[1]])]\<rparr>
   \<and> cells_in_range \<lparr>points = [[0, 0, 0], [1, 0, 0], [0, 1, 0], [0, 0, 1]],
            cells = [(''tetra'', [[0, 1, 2, 3]])],
            cell_data = [(''cell_markers'', [[1]])]\<rparr>"
proof -
  have a': "mesh_ok mesh_3d"
    by (simp add: mesh_3d_def mesh_ok_def)
  have b': "cells_in_range mesh_3d"
    by (simp add: mesh_3d_def cells_in_range_def)
  have c': "create_meshio_mesh mesh_3d ''tetra'' False =
       Inr \<lparr>points = [[0, 0, 0], [1, 0, 0], [0, 1, 0], [0, 0, 1]],
            cells = [(''tetra'', [[0, 1, 2, 3]])],
            cell_data = [(''cell_markers'', [[1]])]\<rparr>"
    by (simp add: mesh_3d_def eval_defs)
  have a: "mesh_ok mesh_empty_lines"
    by (simp add: mesh_empty_lines_def mesh_ok_def)
  have b: "cells_in_range mesh_empty_lines"
    by (simp add: mesh_empty_lines_def cells_in_range_def)
  have c: "create_meshio_mesh mesh_empty_lines ''line'' True =
       Inr \<lparr>points = [[0, 0], [1, 0], [0, 1]], cells = [(''line'', [])],
            cell_data = [(''facet_markers'', [[]])]\<rparr>"
    by (simp add: mesh_empty_lines_def eval_defs)
  have d: "get_cells_type mesh_empty_lines ''line'' = []"
    by (simp add: mesh_empty_lines_def get_cells_type_def)
  from sub_mesh_invariant [OF a b c] sub_mesh_invariant [OF a' b' c'] a b c d a' b' c'
  show ?thesis by blast
qed

section \<open>Pruning the third coordinate\<close>

text \<open>
  Claim C6 says that extraction with pruning removes the third coordinate of every point of
  every mesh. The source prunes by \<^verbatim>\<open>out_mesh.prune_z_0()\<close>, which removes the third
  coordinate only if it is zero everywhere: the points of a triangulated surface that leaves
  the plane come back unchanged, with all three coordinates.
\<close>

theorem prune_not_unconditional_counterexample:
  "create_meshio_mesh mesh_surface ''triangle'' True =
     Inr \<lparr>points = [[0, 0, 0], [1, 0, 0], [0, 1, 1]], cells = [(''triangle'', [[0, 1, 2]])],
          cell_data = [(''cell_markers'', [[1]])]\<rparr>
   \<and> points mesh_surface = [[0, 0, 0], [1, 0, 0], [0, 1, 1]]
   \<and> [[0, 0, 0], [1, 0, 0], [0, 1, 1]] \<noteq> map (take 2) (points mesh_surface)"
  by (simp add: mesh_surface_def eval_defs)

text \<open>
  Claim C6, amended. The point count never changes. Without pruning the points are those of
  the source. With pruning they are the source's points with exactly the third coordinate
  removed from every point if the source has at least one point, every point has three
  coordinates and every third coordinate is zero up to the tolerance; otherwise they are the
  points of the source, unchanged.
\<close>

theorem prune_when_z_is_0:
  assumes "create_meshio_mesh m t pz = Inr out"
  shows "length (points out) = length (points m)
       \<and> (\<not> pz \<longrightarrow> points out = points m)
       \<and> (pz \<and> \<not> z_is_0 (points m) \<longrightarrow> points out = points m)
       \<and> (pz \<and> z_is_0 (points m) \<longrightarrow>
            points out = map (take 2) (points m)
            \<and> (\<forall>i < length (points m). \<exists>x y z.
                  points m ! i = [x, y, z] \<and> \<bar>z\<bar> < tol \<and> points out ! i = [x, y]))"
proof -
  from create_meshio_mesh_Inr [OF assms] have
    ps: "points out = (if pz then points (prune_z_0 (Mesh (points m) [] [])) else points m)"
    by blast
  have rows: "\<exists>x y z. points m ! i = [x, y, z] \<and> \<bar>z\<bar> < tol
                \<and> map (take 2) (points m) ! i = [x, y]"
    if z: "z_is_0 (points m)" and i: "i < length (points m)" for i
  proof -
    from z_is_0_row [OF z nth_mem [OF i]] obtain x y z where
      "points m ! i = [x, y, z]" "\<bar>z\<bar> < tol" by blast
    with i show ?thesis by simp
  qed
  show ?thesis using ps rows by (auto simp: Mesh_def prune_z_0_def)
qed

theorem prune_when_z_is_0_witness:
  "create_meshio_mesh mesh_2d ''line'' True =
     Inr \<lparr>points = [[0, 0], [1, 0], [0, 1]], cells = [(''line'', [[0, 1], [1, 2]])],
          cell_data = [(''facet_markers'', [[2, 2]])]\<rparr>
   \<and> z_is_0 (points mesh_2d)
   \<and> create_meshio_mesh mesh_surface ''line'' True =
     Inr \<lparr>points = [[0, 0, 0], [1, 0, 0], [0, 1, 1]], cells = [(''line'', [[0, 1]])],
          cell_data = [(''facet_markers'', [[2]])]\<rparr>
   \<and> \<not> z_is_0 (points mesh_surface)
   \<and> create_meshio_mesh mesh_2d ''line'' False =
     Inr \<lparr>points = [[0, 0, 0], [1, 0, 0], [0, 1, 0]], cells = [(''line'', [[0, 1], [1, 2]])],
          cell_data = [(''facet_markers'', [[2, 2]])]\<rparr>"
proof -
  have a: "create_meshio_mesh mesh_2d ''line'' True =
     Inr \<lparr>points = [[0, 0], [1, 0], [0, 1]], cells = [(''line'', [[0, 1], [1, 2]])],
          cell_data = [(''facet_markers'', [[2, 2]])]\<rparr>"
    by (simp add: mesh_2d_def eval_defs)
  have b: "z_is_0 (points mesh_2d)"
    by (simp add: mesh_2d_def z_is_0_def tol_def)
  have c: "create_meshio_mesh mesh_surface ''line'' True =
     Inr \<lparr>points = [[0, 0, 0], [1, 0, 0], [0, 1, 1]], cells = [(''line'', [[0, 1]])],
          cell_data = [(''facet_markers'', [[2]])]\<rparr>"
    by (simp add: mesh_surface_def eval_defs)
  have d: "\<not> z_is_0 (points mesh_surface)"
    by (simp add: mesh_surface_def z_is_0_def tol_def)
  have e: "create_meshio_mesh mesh_2d ''line'' False =
     Inr \<lparr>points = [[0, 0, 0], [1, 0, 0], [0, 1, 0]], cells = [(''line'', [[0, 1], [1, 2]])],
          cell_data = [(''facet_markers'', [[2, 2]])]\<rparr>"
    by (simp add: mesh_2d_def eval_defs)
  from prune_when_z_is_0 [OF a] prune_when_z_is_0 [OF c] prune_when_z_is_0 [OF e] a b c d e
  show ?thesis by blast
qed

section \<open>When extraction fails\<close>

text \<open>
  Claim C7 says that extraction fails only if the cell type is not supported or the tag field
  has no entry for it. The source also raises when the cell type is not the body or facet
  type of the mesh: a line of a volume mesh is a supported cell type with tags, and its
  extraction ends in the \<open>RuntimeError\<close> of line 40.
\<close>

theorem extract_fails_beyond_preconditions_counterexample:
  "''line'' \<in> set [''line'', ''triangle'', ''tetra'']
   \<and> has_physical mesh_3d_lines ''line'' = Inr True
   \<and> create_meshio_mesh mesh_3d_lines ''line'' False = Inl RuntimeError"
  by (simp add: mesh_3d_lines_def eval_defs has_physical_def)

text \<open>
  Claim C7, amended. For a mesh as the library holds it, extraction fails if and only if the
  cell type is not one of line, triangle and tetra, or the tag field \<^verbatim>\<open>gmsh:physical\<close>
  is missing or has no entry for the cell type, or the cell type is neither the body nor the
  facet type of the mesh (triangle or line in a mesh with triangle and without tetra cells,
  tetra or triangle in a mesh with both). An empty cell sequence is no reason to fail.
\<close>

theorem extract_fails_iff:
  assumes "mesh_ok m"
  shows "isl (create_meshio_mesh m t pz) \<longleftrightarrow>
     t \<notin> set [''line'', ''triangle'', ''tetra'']
     \<or> has_physical m t \<noteq> Inr True
     \<or> \<not> (cells_dict m ''triangle'' \<noteq> None \<and> cells_dict m ''tetra'' = None
            \<and> (t = ''triangle'' \<or> t = ''line'')
          \<or> cells_dict m ''triangle'' \<noteq> None \<and> cells_dict m ''tetra'' \<noteq> None
            \<and> (t = ''tetra'' \<or> t = ''triangle''))"
proof (cases "t \<in> set [''line'', ''triangle'', ''tetra'']")
  case False
  from create_meshio_mesh_unsupported [OF False] have "isl (create_meshio_mesh m t pz)"
    by simp
  with False show ?thesis by (simp only: simp_thms)
next
  case sup: True
  show ?thesis
  proof (cases "has_physical m t = Inr True")
    case False
    then have "isl (create_meshio_mesh m t pz)" by (rule create_meshio_mesh_no_tags)
    with False show ?thesis by (simp only: simp_thms)
  next
    case True
    then obtain tags where g: "get_cell_data m ''gmsh:physical'' t = Inr tags"
      by (auto simp: has_physical_get_cell_data)
    from True have f: "cell_data_dict m ''gmsh:physical'' \<noteq> None"
      by (rule has_physical_field)
    have "isl (create_meshio_mesh m t pz) \<longleftrightarrow> isl (data_name m t)"
      unfolding create_meshio_mesh_unfold [OF sup f g] by (cases "data_name m t") simp_all
    then show ?thesis
      unfolding data_name_Inl using sup True by (simp only: simp_thms)
  qed
qed

theorem extract_fails_iff_witness:
  "mesh_ok mesh_empty_lines
   \<and> get_cells_type mesh_empty_lines ''line'' = []
   \<and> has_physical mesh_empty_lines ''line'' = Inr True
   \<and> \<not> isl (create_meshio_mesh mesh_empty_lines ''line'' True)
   \<and> mesh_ok mesh_3d_lines
   \<and> has_physical mesh_3d_lines ''line'' = Inr True
   \<and> isl (create_meshio_mesh mesh_3d_lines ''line'' True)
   \<and> mesh_ok mesh_2d
   \<and> has_physical mesh_2d ''tetra'' \<noteq> Inr True
   \<and> isl (create_meshio_mesh mesh_2d ''tetra'' True)"
proof -
  have ok1: "mesh_ok mesh_empty_lines"
    by (simp add: mesh_empty_lines_def mesh_ok_def)
  have e1: "get_cells_type mesh_empty_lines ''line'' = []"
    by (simp add: mesh_empty_lines_def get_cells_type_def)
  have hp1: "has_physical mesh_empty_lines ''line'' = Inr True"
    by (simp add: mesh_empty_lines_def has_physical_def cell_data_dict_def data_of_type_def)
  have cd1: "cells_dict mesh_empty_lines ''triangle'' \<noteq> None
      \<and> cells_dict mesh_empty_lines ''tetra'' = None"
    by (simp add: mesh_empty_lines_def cells_dict_def)
  have r1: "\<not> isl (create_meshio_mesh mesh_empty_lines ''line'' True)"
    using extract_fails_iff [OF ok1, of "''line''" True] hp1 cd1 by simp
  have ok2: "mesh_ok mesh_3d_lines"
    by (simp add: mesh_3d_lines_def mesh_ok_def)
  have hp2: "has_physical mesh_3d_lines ''line'' = Inr True"
    by (simp add: mesh_3d_lines_def has_physical_def cell_data_dict_def data_of_type_def)
  have cd2: "cells_dict mesh_3d_lines ''triangle'' \<noteq> None
      \<and> cells_dict mesh_3d_lines ''tetra'' \<noteq> None"
    by (simp add: mesh_3d_lines_def cells_dict_def)
  have r2: "isl (create_meshio_mesh mesh_3d_lines ''line'' True)"
    using extract_fails_iff [OF ok2, of "''line''" True] hp2 cd2 by simp
  have ok3: "mesh_ok mesh_2d"
    by (simp add: mesh_2d_def mesh_ok_def)
  have hp3: "has_physical mesh_2d ''tetra'' \<noteq> Inr True"
    by (simp add: mesh_2d_def has_physical_def cell_data_dict_def data_of_type_def)
  have r3: "isl (create_meshio_mesh mesh_2d ''tetra'' True)"
    using extract_fails_iff [OF ok3, of "''tetra''" True] hp3 by simp
  from ok1 e1 hp1 r1 ok2 hp2 r2 ok3 hp3 r3 show ?thesis by simp
qed

section \<open>Facts about the runs of \<^verbatim>\<open>generate_xdmf_mesh\<close>\<close>

lemmas path_defs = path_exists_def splitext_ext_def path_basename_def str_replace_def
  locate_file_def xdmf_path_def facet_marker_path_def

lemmas run_defs = generate_xdmf_mesh_def read_and_write_def meshio_read_def meshio_write_def
  built_def run_gmsh_def dimension_and_cell_types_def determine_dimension_def
  specify_cell_types_def has_physical_def

text \<open>
  Once the inference has succeeded, the facet sub-mesh can be constructed, and so can the body
  sub-mesh of a consistent mesh.
\<close>

lemma create_meshio_mesh_succeeds:
  assumes "t \<in> set [''line'', ''triangle'', ''tetra'']"
    and "has_physical m t = Inr True" and "data_name m t = Inr name"
  shows "\<exists>out. create_meshio_mesh m t pz = Inr out"
proof -
  from assms(2) obtain tags where g: "get_cell_data m ''gmsh:physical'' t = Inr tags"
    by (auto simp: has_physical_get_cell_data)
  from assms(2) have f: "cell_data_dict m ''gmsh:physical'' \<noteq> None"
    by (rule has_physical_field)
  show ?thesis unfolding create_meshio_mesh_unfold [OF assms(1) f g] using assms(3) by simp
qed

lemma dimension_and_cell_types_Inr:
  assumes "dimension_and_cell_types m = Inr (n, ct)"
  shows "cells_dict m ''triangle'' \<noteq> None \<and> cells_dict m ''tetra'' = None
           \<and> has_physical m ''line'' = Inr True \<and> n = 2
           \<and> ct = \<lparr>facet_type = ''line'', body_type = ''triangle'', prune = True\<rparr>
       \<or> cells_dict m ''triangle'' \<noteq> None \<and> cells_dict m ''tetra'' \<noteq> None
           \<and> has_physical m ''triangle'' = Inr True \<and> n = 3
           \<and> ct = \<lparr>facet_type = ''triangle'', body_type = ''tetra'', prune = False\<rparr>"
  using assms
  by (auto simp: dimension_and_cell_types_def determine_dimension_def specify_cell_types_def
      split: sum.splits if_splits)

lemma facet_construction_succeeds:
  assumes "dimension_and_cell_types m = Inr (n, ct)"
  shows "\<exists>facet_mesh. create_meshio_mesh m (facet_type ct) (prune ct) = Inr facet_mesh"
  using dimension_and_cell_types_Inr [OF assms]
proof (elim disjE conjE)
  assume "cells_dict m ''triangle'' \<noteq> None" "cells_dict m ''tetra'' = None"
    "has_physical m ''line'' = Inr True"
    "ct = \<lparr>facet_type = ''line'', body_type = ''triangle'', prune = True\<rparr>"
  then show ?thesis
    using create_meshio_mesh_succeeds [of "''line''" m "''facet_markers''" True]
    by (simp add: data_name_def)
next
  assume "cells_dict m ''triangle'' \<noteq> None" "cells_dict m ''tetra'' \<noteq> None"
    "has_physical m ''triangle'' = Inr True"
    "ct = \<lparr>facet_type = ''triangle'', body_type = ''tetra'', prune = False\<rparr>"
  then show ?thesis
    using create_meshio_mesh_succeeds [of "''triangle''" m "''facet_markers''" False]
    by (simp add: data_name_def)
qed

lemma zip_has_type:
  "length vl = length cs \<Longrightarrow> t \<in> set (map fst cs) \<Longrightarrow>
     filter (\<lambda>(b, d). fst b = t) (zip cs vl) \<noteq> []"
proof (induction cs arbitrary: vl)
  case Nil
  then show ?case by simp
next
  case (Cons c cs)
  then obtain v vs where "vl = v # vs" by (cases vl) auto
  with Cons show ?case by auto
qed

lemma has_physical_of_block:
  assumes "mesh_ok m" and "cell_data_dict m ''gmsh:physical'' \<noteq> None"
    and "cells_dict m t \<noteq> None"
  shows "has_physical m t = Inr True"
proof -
  from assms(2) obtain vl where vl: "map_of (cell_data m) ''gmsh:physical'' = Some vl"
    by (auto simp: cell_data_dict_def split: option.splits)
  from mesh_ok_field [OF assms(1) vl] have "length vl = length (cells m)"
    by (rule list_all2_lengthD)
  moreover from assms(3) have "t \<in> set (map fst (cells m))"
    by (auto simp: cells_dict_def split: if_splits)
  ultimately have "data_of_type m vl t \<noteq> []"
    unfolding data_of_type_def using zip_has_type [of vl "cells m" t] by simp
  with vl show ?thesis by (simp add: has_physical_def cell_data_dict_def)
qed

lemma body_construction_succeeds:
  assumes "mesh_ok m" and "dimension_and_cell_types m = Inr (n, ct)"
  shows "\<exists>cell_mesh. create_meshio_mesh m (body_type ct) (prune ct) = Inr cell_mesh"
  using dimension_and_cell_types_Inr [OF assms(2)]
proof (elim disjE conjE)
  assume a: "cells_dict m ''triangle'' \<noteq> None" "cells_dict m ''tetra'' = None"
    "has_physical m ''line'' = Inr True"
    "ct = \<lparr>facet_type = ''line'', body_type = ''triangle'', prune = True\<rparr>"
  from a(3) have "cell_data_dict m ''gmsh:physical'' \<noteq> None" by (rule has_physical_field)
  from has_physical_of_block [OF assms(1) this a(1)] a show ?thesis
    using create_meshio_mesh_succeeds [of "''triangle''" m "''cell_markers''" True]
    by (simp add: data_name_def)
next
  assume a: "cells_dict m ''triangle'' \<noteq> None" "cells_dict m ''tetra'' \<noteq> None"
    "has_physical m ''triangle'' = Inr True"
    "ct = \<lparr>facet_type = ''triangle'', body_type = ''tetra'', prune = False\<rparr>"
  from a(3) have "cell_data_dict m ''gmsh:physical'' \<noteq> None" by (rule has_physical_field)
  from has_physical_of_block [OF assms(1) this a(2)] a show ?thesis
    using create_meshio_mesh_succeeds [of "''tetra''" m "''cell_markers''" False]
    by (simp add: data_name_def)
qed

lemma meshio_read_Inr:
  "meshio_read w p = (Inr mesh, w1) \<Longrightarrow>
     files w p = Some (Msh_file mesh) \<and> w1 = w\<lparr>log := log w @ [Read_mesh p]\<rparr>"
  by (auto simp: meshio_read_def split: option.splits file_content.splits)

lemma meshio_read_Inl:
  "meshio_read w p = (Inl e, w1) \<Longrightarrow> w1 = w"
  by (auto simp: meshio_read_def split: option.splits file_content.splits)

lemma meshio_write_None:
  "meshio_write w p m = (None, w1) \<Longrightarrow>
     w1 = w\<lparr>files := (files w)(p \<mapsto> Xdmf_file m), log := log w @ [Wrote p]\<rparr>"
  by (auto simp: meshio_write_def split: if_splits)

lemma meshio_write_Some:
  "meshio_write w p m = (Some e, w1) \<Longrightarrow> w1 = w"
  by (auto simp: meshio_write_def split: if_splits)

lemma read_and_write_None: "read_and_write w None = (Inl TypeError, w)"
  by (simp add: read_and_write_def)

text \<open>Every way a run of lines 90 to 119 on a located file can end.\<close>

lemma read_and_write_cases:
  assumes "read_and_write w (Some p) = (res, w')"
  shows "(isl res \<and> log w' = log w \<and> files w' = files w)
       \<or> (\<exists>mesh. isl res \<and> files w p = Some (Msh_file mesh)
            \<and> isl (dimension_and_cell_types mesh)
            \<and> log w' = log w @ [Read_mesh p] \<and> files w' = files w)
       \<or> (\<exists>mesh n ct facet_mesh. isl res \<and> files w p = Some (Msh_file mesh)
            \<and> dimension_and_cell_types mesh = Inr (n, ct)
            \<and> create_meshio_mesh mesh (facet_type ct) (prune ct) = Inr facet_mesh
            \<and> log w' = log w @ [Read_mesh p, Built (facet_type ct)] \<and> files w' = files w)
       \<or> (\<exists>mesh n ct facet_mesh. isl res \<and> files w p = Some (Msh_file mesh)
            \<and> dimension_and_cell_types mesh = Inr (n, ct)
            \<and> create_meshio_mesh mesh (facet_type ct) (prune ct) = Inr facet_mesh
            \<and> isl (create_meshio_mesh mesh (body_type ct) (prune ct))
            \<and> log w' = log w @ [Read_mesh p, Built (facet_type ct), Wrote (facet_marker_path p)]
            \<and> files w' = (files w)(facet_marker_path p \<mapsto> Xdmf_file facet_mesh))
       \<or> (\<exists>mesh n ct facet_mesh cell_mesh. isl res \<and> files w p = Some (Msh_file mesh)
            \<and> dimension_and_cell_types mesh = Inr (n, ct)
            \<and> create_meshio_mesh mesh (facet_type ct) (prune ct) = Inr facet_mesh
            \<and> create_meshio_mesh mesh (body_type ct) (prune ct) = Inr cell_mesh
            \<and> log w' = log w @ [Read_mesh p, Built (facet_type ct), Wrote (facet_marker_path p),
                                  Built (body_type ct)]
            \<and> files w' = (files w)(facet_marker_path p \<mapsto> Xdmf_file facet_mesh))
       \<or> (\<exists>mesh n ct facet_mesh cell_mesh. res = Inr (xdmf_path p, facet_marker_path p)
            \<and> files w p = Some (Msh_file mesh)
            \<and> dimension_and_cell_types mesh = Inr (n, ct)
            \<and> create_meshio_mesh mesh (facet_type ct) (prune ct) = Inr facet_mesh
            \<and> create_meshio_mesh mesh (body_type ct) (prune ct) = Inr cell_mesh
            \<and> log w' = log w @ [Read_mesh p, Built (facet_type ct), Wrote (facet_marker_path p),
                                  Built (body_type ct), Wrote (xdmf_path p)]
            \<and> files w' = (files w)(facet_marker_path p \<mapsto> Xdmf_file facet_mesh,
                                     xdmf_path p \<mapsto> Xdmf_file cell_mesh))"
proof (cases "path_exists w p")
  case False
  with assms show ?thesis by (auto simp: read_and_write_def)
next
  case ex: True
  show ?thesis
  proof (cases "meshio_read w p")
    case (Pair r w1)
    show ?thesis
    proof (cases r)
      case (Inl e)
      with Pair ex assms meshio_read_Inl [of w p e w1] show ?thesis
        by (auto simp: read_and_write_def)
    next
      case (Inr mesh)
      with Pair meshio_read_Inr [of w p mesh w1] have
        f: "files w p = Some (Msh_file mesh)" and w1: "w1 = w\<lparr>log := log w @ [Read_mesh p]\<rparr>"
        by auto
      show ?thesis
      proof (cases "dimension_and_cell_types mesh")
        case (Inl e)
        with Pair Inr ex assms f w1 show ?thesis
          by (auto simp: read_and_write_def)
      next
        case dims: (Inr nct)
        obtain n ct where nct: "nct = (n, ct)" by (cases nct)
        show ?thesis
        proof (cases "create_meshio_mesh mesh (facet_type ct) (prune ct)")
          case (Inl e)
          with facet_construction_succeeds [of mesh n ct] dims nct show ?thesis
            by simp
        next
          case fm: (Inr facet_mesh)
          show ?thesis
          proof (cases "writable w (facet_marker_path p)")
            case False
            with Pair Inr ex assms f w1 dims nct fm show ?thesis
              by (auto simp: read_and_write_def meshio_write_def built_def)
          next
            case wf: True
            show ?thesis
            proof (cases "create_meshio_mesh mesh (body_type ct) (prune ct)")
              case (Inl e)
              with Pair Inr ex assms f w1 dims nct fm wf show ?thesis
                by (auto simp: read_and_write_def meshio_write_def built_def)
            next
              case cm: (Inr cell_mesh)
              show ?thesis
              proof (cases "writable w (xdmf_path p)")
                case False
                with Pair Inr ex assms f w1 dims nct fm wf cm show ?thesis
                  by (auto simp: read_and_write_def meshio_write_def built_def)
              next
                case True
                with Pair Inr ex assms f w1 dims nct fm wf cm show ?thesis
                  by (auto simp: read_and_write_def meshio_write_def built_def)
              qed
            qed
          qed
        qed
      qed
    qed
  qed
qed

lemma read_and_write_Inr:
  assumes "read_and_write w msh_file = (Inr ret, w')"
  shows "\<exists>p mesh n ct facet_mesh cell_mesh.
           msh_file = Some p
         \<and> files w p = Some (Msh_file mesh)
         \<and> dimension_and_cell_types mesh = Inr (n, ct)
         \<and> create_meshio_mesh mesh (facet_type ct) (prune ct) = Inr facet_mesh
         \<and> create_meshio_mesh mesh (body_type ct) (prune ct) = Inr cell_mesh
         \<and> ret = (xdmf_path p, facet_marker_path p)
         \<and> files w' = (files w)(facet_marker_path p \<mapsto> Xdmf_file facet_mesh,
                                  xdmf_path p \<mapsto> Xdmf_file cell_mesh)
         \<and> log w' = log w @ [Read_mesh p, Built (facet_type ct), Wrote (facet_marker_path p),
                               Built (body_type ct), Wrote (xdmf_path p)]"
proof (cases msh_file)
  case None
  with assms show ?thesis by (simp add: read_and_write_None)
next
  case (Some p)
  from read_and_write_cases [of w p "Inr ret" w'] assms Some show ?thesis
    by auto
qed

lemma generate_xdmf_mesh_located:
  assumes "path_exists w geo_file" and "splitext_ext geo_file = ''.geo''"
    and "locate_file w (str_replace ''.geo'' ''.msh'' (path_basename geo_file)) = Inr (Some p)"
  shows "generate_xdmf_mesh w geo_file = read_and_write w (Some p)"
  using assms by (simp add: generate_xdmf_mesh_def Let_def)

lemma generate_xdmf_mesh_Inr:
  assumes "generate_xdmf_mesh w geo_file = (Inr ret, w')"
  shows "\<exists>p. path_exists w geo_file \<and> splitext_ext geo_file = ''.geo''
         \<and> locate_file w (str_replace ''.geo'' ''.msh'' (path_basename geo_file)) = Inr (Some p)
         \<and> read_and_write w (Some p) = (Inr ret, w')"
  using assms
  by (auto simp: generate_xdmf_mesh_def Let_def read_and_write_None
      split: if_splits sum.splits prod.splits option.splits)

text \<open>Without a located mesh file no run succeeds, whatever the generator does.\<close>

lemma generate_xdmf_mesh_nothing_located:
  assumes "locate_file w (str_replace ''.geo'' ''.msh'' (path_basename geo_file)) = Inr None"
  shows "isl (fst (generate_xdmf_mesh w geo_file))"
proof (cases "fst (generate_xdmf_mesh w geo_file)")
  case (Inl e)
  then show ?thesis by simp
next
  case (Inr ret)
  then have "generate_xdmf_mesh w geo_file = (Inr ret, snd (generate_xdmf_mesh w geo_file))"
    by (metis prod.collapse)
  from generate_xdmf_mesh_Inr [OF this] assms show ?thesis by auto
qed

section \<open>The order of constructing and writing\<close>

text \<open>
  Claim C3 says that no output file is written before both sub-meshes have been constructed,
  so that a failure in constructing either leaves no output file. In the source the facet
  file is written (line 114) before the body sub-mesh is constructed (line 116): in the run on
  the planar mesh, the body sub-mesh, of triangles, has not been built when the facet file is
  written.
\<close>

theorem facet_file_written_before_body_built_counterexample:
  "log (snd (generate_xdmf_mesh world_located ''model.geo'')) =
     [Read_mesh ''./meshes/model.msh'', Built ''line'',
      Wrote ''./meshes/model_facet_markers.xdmf'', Built ''triangle'',
      Wrote ''./meshes/model.xdmf'']
   \<and> Built ''triangle'' \<notin> set (takeWhile (\<lambda>e. e \<noteq> Wrote ''./meshes/model_facet_markers.xdmf'')
        (log (snd (generate_xdmf_mesh world_located ''model.geo''))))"
  by (simp add: world_located_def path_defs run_defs mesh_2d_def eval_defs)

text \<open>
  Claim C3, amended. Each output file is written only after its own sub-mesh has been
  constructed, and the facet file is written before the body sub-mesh is constructed: the
  steps of a run on a located mesh file are, in this order, parsing, constructing the facet
  sub-mesh, writing the facet file, constructing the body sub-mesh and writing the body file,
  and a run that fails ends within this sequence. A run that ends before the facet file is
  written leaves no output file; a run that ends after that, so also one in which the
  construction of the body sub-mesh fails, leaves the facet file and no body file.
\<close>

theorem outputs_follow_their_sub_mesh:
  assumes "generate_xdmf_mesh w geo_file = (res, w')"
  shows "(isl res \<and> (log w' = log w \<or> log w' = log w @ [Ran_gmsh geo_file])
            \<and> (files w' = files w
                \<or> (\<exists>new. gmsh w geo_file = Exit_ok new \<and> files w' = files w ++ map_of new)))
       \<or> (\<exists>p mesh. isl res \<and> files w p = Some (Msh_file mesh)
            \<and> isl (dimension_and_cell_types mesh)
            \<and> log w' = log w @ [Read_mesh p] \<and> files w' = files w)
       \<or> (\<exists>p mesh n ct facet_mesh. isl res \<and> files w p = Some (Msh_file mesh)
            \<and> dimension_and_cell_types mesh = Inr (n, ct)
            \<and> create_meshio_mesh mesh (facet_type ct) (prune ct) = Inr facet_mesh
            \<and> log w' = log w @ [Read_mesh p, Built (facet_type ct)] \<and> files w' = files w)
       \<or> (\<exists>p mesh n ct facet_mesh. isl res \<and> files w p = Some (Msh_file mesh)
            \<and> dimension_and_cell_types mesh = Inr (n, ct)
            \<and> create_meshio_mesh mesh (facet_type ct) (prune ct) = Inr facet_mesh
            \<and> isl (create_meshio_mesh mesh (body_type ct) (prune ct))
            \<and> log w' = log w @ [Read_mesh p, Built (facet_type ct), Wrote (facet_marker_path p)]
            \<and> files w' = (files w)(facet_marker_path p \<mapsto> Xdmf_file facet_mesh))
       \<or> (\<exists>p mesh n ct facet_mesh cell_mesh. isl res \<and> files w p = Some (Msh_file mesh)
            \<and> dimension_and_cell_types mesh = Inr (n, ct)
            \<and> create_meshio_mesh mesh (facet_type ct) (prune ct) = Inr facet_mesh
            \<and> create_meshio_mesh mesh (body_type ct) (prune ct) = Inr cell_mesh
            \<and> log w' = log w @ [Read_mesh p, Built (facet_type ct), Wrote (facet_marker_path p),
                                  Built (body_type ct)]
            \<and> files w' = (files w)(facet_marker_path p \<mapsto> Xdmf_file facet_mesh))
       \<or> (\<exists>p mesh n ct facet_mesh cell_mesh. res = Inr (xdmf_path p, facet_marker_path p)
            \<and> files w p = Some (Msh_file mesh)
            \<and> dimension_and_cell_types mesh = Inr (n, ct)
            \<and> create_meshio_mesh mesh (facet_type ct) (prune ct) = Inr facet_mesh
            \<and> create_meshio_mesh mesh (body_type ct) (prune ct) = Inr cell_mesh
            \<and> log w' = log w @ [Read_mesh p, Built (facet_type ct), Wrote (facet_marker_path p),
                                  Built (body_type ct), Wrote (xdmf_path p)]
            \<and> files w' = (files w)(facet_marker_path p \<mapsto> Xdmf_file facet_mesh,
                                     xdmf_path p \<mapsto> Xdmf_file cell_mesh))"
proof (cases "\<exists>p. path_exists w geo_file \<and> splitext_ext geo_file = ''.geo''
    \<and> locate_file w (str_replace ''.geo'' ''.msh'' (path_basename geo_file)) = Inr (Some p)")
  case True
  then obtain p where "path_exists w geo_file" "splitext_ext geo_file = ''.geo''"
    "locate_file w (str_replace ''.geo'' ''.msh'' (path_basename geo_file)) = Inr (Some p)"
    by blast
  then have "generate_xdmf_mesh w geo_file = read_and_write w (Some p)"
    by (rule generate_xdmf_mesh_located)
  with assms have "read_and_write w (Some p) = (res, w')" by simp
  from read_and_write_cases [OF this] show ?thesis
    apply (elim disjE)
    subgoal by simp
    subgoal by (rule disjI2, rule disjI1, rule exI [of _ p]) assumption
    subgoal by (rule disjI2, rule disjI2, rule disjI1, rule exI [of _ p]) assumption
    subgoal by (rule disjI2, rule disjI2, rule disjI2, rule disjI1, rule exI [of _ p]) assumption
    subgoal by (rule disjI2, rule disjI2, rule disjI2, rule disjI2, rule disjI1, rule exI [of _ p])
        assumption
    subgoal by (rule disjI2, rule disjI2, rule disjI2, rule disjI2, rule disjI2, rule exI [of _ p])
        assumption
    done
next
  case False
  have "isl res \<and> (log w' = log w \<or> log w' = log w @ [Ran_gmsh geo_file])
            \<and> (files w' = files w
                \<or> (\<exists>new. gmsh w geo_file = Exit_ok new \<and> files w' = files w ++ map_of new))"
  proof (cases "path_exists w geo_file \<and> splitext_ext geo_file = ''.geo''")
    case False
    with assms show ?thesis by (auto simp: generate_xdmf_mesh_def split: if_splits)
  next
    case True
    with False have nl:
      "locate_file w (str_replace ''.geo'' ''.msh'' (path_basename geo_file)) \<noteq> Inr (Some q)" for q
      by blast
    show ?thesis
    proof (cases "locate_file w (str_replace ''.geo'' ''.msh'' (path_basename geo_file))")
      case (Inl e)
      with assms True show ?thesis by (auto simp: generate_xdmf_mesh_def Let_def)
    next
      case (Inr r)
      with nl have "r = None" by (cases r) auto
      with Inr assms True show ?thesis
        by (auto simp: generate_xdmf_mesh_def Let_def read_and_write_None run_gmsh_def
            split: gmsh_result.splits)
    qed
  qed
  then show ?thesis by (rule disjI1)
qed

theorem outputs_follow_their_sub_mesh_witness:
  "fst (generate_xdmf_mesh world_body_unwritable ''model.geo'') = Inl WriteError
   \<and> log (snd (generate_xdmf_mesh world_body_unwritable ''model.geo'')) =
       [Read_mesh ''./meshes/model.msh'', Built ''line'',
        Wrote ''./meshes/model_facet_markers.xdmf'', Built ''triangle'']
   \<and> files (snd (generate_xdmf_mesh world_body_unwritable ''model.geo''))
        ''./meshes/model_facet_markers.xdmf'' =
       Some (Xdmf_file \<lparr>points = [[0, 0], [1, 0], [0, 1]],
          cells = [(''line'', [[0, 1], [1, 2]])],
          cell_data = [(''facet_markers'', [[2, 2]])]\<rparr>)
   \<and> files (snd (generate_xdmf_mesh world_body_unwritable ''model.geo''))
        ''./meshes/model.xdmf'' = None"
proof -
  have r: "fst (generate_xdmf_mesh world_body_unwritable ''model.geo'') = Inl WriteError"
    by (simp add: world_body_unwritable_def path_defs run_defs mesh_2d_def eval_defs)
  then have run: "generate_xdmf_mesh world_body_unwritable ''model.geo'' =
     (Inl WriteError, snd (generate_xdmf_mesh world_body_unwritable ''model.geo''))"
    by (metis prod.collapse)
  have l: "log (snd (generate_xdmf_mesh world_body_unwritable ''model.geo'')) =
       [Read_mesh ''./meshes/model.msh'', Built ''line'',
        Wrote ''./meshes/model_facet_markers.xdmf'', Built ''triangle'']"
    by (simp add: world_body_unwritable_def path_defs run_defs mesh_2d_def eval_defs)
  have f1: "files (snd (generate_xdmf_mesh world_body_unwritable ''model.geo''))
        ''./meshes/model_facet_markers.xdmf'' =
       Some (Xdmf_file \<lparr>points = [[0, 0], [1, 0], [0, 1]],
          cells = [(''line'', [[0, 1], [1, 2]])],
          cell_data = [(''facet_markers'', [[2, 2]])]\<rparr>)"
    by (simp add: world_body_unwritable_def path_defs run_defs mesh_2d_def eval_defs)
  have f2: "files (snd (generate_xdmf_mesh world_body_unwritable ''model.geo''))
        ''./meshes/model.xdmf'' = None"
    by (simp add: world_body_unwritable_def path_defs run_defs mesh_2d_def eval_defs)
  have goal: ?thesis using r l f1 f2 by (simp only: simp_thms)
  from outputs_follow_their_sub_mesh [OF run] goal show ?thesis by -
qed

section \<open>Locating or generating the mesh file\<close>

text \<open>
  Claim C4. A run parses a native mesh file: a file that is located is parsed as it is and the
  generator is not invoked (lemma \<open>generate_xdmf_mesh_located\<close>); when none is located the
  generator is invoked and the file it produced is parsed next. The source does the first. In
  the second case it invokes the generator and then checks \<^verbatim>\<open>path.exists(msh_file)\<close>
  with \<open>msh_file\<close> still \<open>None\<close>: the run ends in an error although the generator has
  written the mesh file, which is neither parsed nor converted.
\<close>

theorem generated_mesh_is_never_parsed:
  "locate_file world_generated (str_replace ''.geo'' ''.msh'' (path_basename ''model.geo''))
     = Inr None
   \<and> gmsh world_generated ''model.geo'' = Exit_ok [(''model.msh'', Msh_file mesh_2d)]
   \<and> fst (generate_xdmf_mesh world_generated ''model.geo'') = Inl TypeError
   \<and> log (snd (generate_xdmf_mesh world_generated ''model.geo'')) = [Ran_gmsh ''model.geo'']
   \<and> files (snd (generate_xdmf_mesh world_generated ''model.geo'')) =
       [''model.geo'' \<mapsto> Other_file, ''model.msh'' \<mapsto> Msh_file mesh_2d]"
  by (simp add: world_generated_def path_defs run_defs)

section \<open>The paths of the output files\<close>

text \<open>
  Claim C8. The output paths are the path of the mesh file with its suffix \<^verbatim>\<open>.msh\<close>
  replaced by \<^verbatim>\<open>.xdmf\<close> and by \<^verbatim>\<open>_facet_markers.xdmf\<close>, and no other part of
  the path changes. The source calls \<^verbatim>\<open>msh_file.replace(".msh", ...)\<close>, which replaces
  every occurrence: for a mesh file in the directory \<^verbatim>\<open>run.msh.d\<close> the directory part
  of both output paths changes too.
\<close>

theorem every_msh_in_the_path_is_replaced:
  "locate_file world_dotted (str_replace ''.geo'' ''.msh'' (path_basename ''model.geo''))
     = Inr (Some ''./run.msh.d/model.msh'')
   \<and> fst (generate_xdmf_mesh world_dotted ''model.geo'') =
       Inr (''./run.xdmf.d/model.xdmf'', ''./run_facet_markers.xdmf.d/model_facet_markers.xdmf'')
   \<and> log (snd (generate_xdmf_mesh world_dotted ''model.geo'')) =
       [Read_mesh ''./run.msh.d/model.msh'', Built ''line'',
        Wrote ''./run_facet_markers.xdmf.d/model_facet_markers.xdmf'',
        Built ''triangle'', Wrote ''./run.xdmf.d/model.xdmf'']"
  by (simp add: world_dotted_def path_defs run_defs mesh_2d_def eval_defs)

section \<open>The value returned\<close>

text \<open>
  Claim C10. A successful run returns a pair of paths, first the path of the body file, then
  the path of the facet-marker file: both are made from the located mesh file, the second
  component is the path the facet sub-mesh was written to and the first the path the body
  sub-mesh was written to.
\<close>

theorem returns_body_path_then_facet_path:
  assumes "generate_xdmf_mesh w geo_file = (Inr ret, w')"
  shows "\<exists>p mesh n ct facet_mesh cell_mesh.
           locate_file w (str_replace ''.geo'' ''.msh'' (path_basename geo_file)) = Inr (Some p)
         \<and> files w p = Some (Msh_file mesh)
         \<and> dimension_and_cell_types mesh = Inr (n, ct)
         \<and> create_meshio_mesh mesh (facet_type ct) (prune ct) = Inr facet_mesh
         \<and> create_meshio_mesh mesh (body_type ct) (prune ct) = Inr cell_mesh
         \<and> ret = (str_replace ''.msh'' ''.xdmf'' p, str_replace ''.msh'' ''_facet_markers.xdmf'' p)
         \<and> log w' = log w @ [Read_mesh p, Built (facet_type ct), Wrote (snd ret),
                               Built (body_type ct), Wrote (fst ret)]
         \<and> files w' = (files w)(snd ret \<mapsto> Xdmf_file facet_mesh, fst ret \<mapsto> Xdmf_file cell_mesh)"
proof -
  from generate_xdmf_mesh_Inr [OF assms] obtain p where
    loc: "locate_file w (str_replace ''.geo'' ''.msh'' (path_basename geo_file)) = Inr (Some p)"
    and rw: "read_and_write w (Some p) = (Inr ret, w')"
    by blast
  from read_and_write_Inr [OF rw] loc show ?thesis
    unfolding xdmf_path_def facet_marker_path_def by auto
qed

theorem returns_body_path_then_facet_path_witness:
  "fst (generate_xdmf_mesh world_located ''model.geo'') =
     Inr (''./meshes/model.xdmf'', ''./meshes/model_facet_markers.xdmf'')
   \<and> files (snd (generate_xdmf_mesh world_located ''model.geo'')) ''./meshes/model.xdmf'' =
       Some (Xdmf_file \<lparr>points = [[0, 0], [1, 0], [0, 1]], cells = [(''triangle'', [[0, 1, 2]])],
          cell_data = [(''cell_markers'', [[1]])]\<rparr>)
   \<and> files (snd (generate_xdmf_mesh world_located ''model.geo''))
        ''./meshes/model_facet_markers.xdmf'' =
       Some (Xdmf_file \<lparr>points = [[0, 0], [1, 0], [0, 1]],
          cells = [(''line'', [[0, 1], [1, 2]])],
          cell_data = [(''facet_markers'', [[2, 2]])]\<rparr>)"
proof -
  have r: "fst (generate_xdmf_mesh world_located ''model.geo'') =
     Inr (''./meshes/model.xdmf'', ''./meshes/model_facet_markers.xdmf'')"
    by (simp add: world_located_def path_defs run_defs mesh_2d_def eval_defs)
  then have run: "generate_xdmf_mesh world_located ''model.geo'' =
     (Inr (''./meshes/model.xdmf'', ''./meshes/model_facet_markers.xdmf''),
      snd (generate_xdmf_mesh world_located ''model.geo''))"
    by (metis prod.collapse)
  have f1: "files (snd (generate_xdmf_mesh world_located ''model.geo'')) ''./meshes/model.xdmf'' =
       Some (Xdmf_file \<lparr>points = [[0, 0], [1, 0], [0, 1]], cells = [(''triangle'', [[0, 1, 2]])],
          cell_data = [(''cell_markers'', [[1]])]\<rparr>)"
    by (simp add: world_located_def path_defs run_defs mesh_2d_def eval_defs)
  have f2: "files (snd (generate_xdmf_mesh world_located ''model.geo''))
        ''./meshes/model_facet_markers.xdmf'' =
       Some (Xdmf_file \<lparr>points = [[0, 0], [1, 0], [0, 1]],
          cells = [(''line'', [[0, 1], [1, 2]])],
          cell_data = [(''facet_markers'', [[2, 2]])]\<rparr>)"
    by (simp add: world_located_def path_defs run_defs mesh_2d_def eval_defs)
  from returns_body_path_then_facet_path [OF run] r f1 f2 show ?thesis by blast
qed

section \<open>The source mesh after an extraction\<close>

lemma view_new_Mesh_old:
  "a < length (objects h) \<Longrightarrow> view (snd (new_Mesh h ps cs cd)) a = view h a"
  by (simp add: view_def new_Mesh_def nth_append)

lemma view_new_Mesh_new:
  "ps < length (arrays h) \<Longrightarrow>
   view (snd (new_Mesh h ps cs cd)) (length (objects h)) = Some (Mesh (arrays h ! ps) cs cd)"
  by (simp add: view_def new_Mesh_def nth_append Mesh_def)

lemma view_prune_other:
  "b < length (objects h) \<Longrightarrow> a \<noteq> b \<Longrightarrow> view h a = Some m \<Longrightarrow> view (prune_z_0_at h b) a = Some m"
  by (auto simp: view_def prune_z_0_at_def Let_def nth_append split: if_splits)

lemma view_prune_self:
  "view h b = Some m \<Longrightarrow> view (prune_z_0_at h b) b = Some (prune_z_0 m)"
  by (auto simp: view_def prune_z_0_at_def prune_z_0_def Let_def nth_append split: if_splits)

lemma prune_keeps_arrays:
  "take (length (arrays h)) (arrays (prune_z_0_at h b)) = arrays h"
  by (simp add: prune_z_0_at_def Let_def)

lemma prune_keeps_objects:
  "a < length (objects h) \<Longrightarrow> a \<noteq> b \<Longrightarrow> objects (prune_z_0_at h b) ! a = objects h ! a"
  by (simp add: prune_z_0_at_def Let_def)

text \<open>
  Claim C9. A call of the extraction, with or without pruning, leaves the source mesh as it
  was: the source object, its point array and every array that existed before the call are
  unchanged, and a failed call changes nothing at all. The new mesh is another object, and it
  is the mesh that \<open>create_meshio_mesh\<close> computes; pruning binds only the new object to a
  new array.
\<close>

theorem source_mesh_unchanged:
  assumes "view h a = Some m" and "create_meshio_mesh_at h a t pz = (r, h')"
  shows "view h' a = Some m
       \<and> objects h' ! a = objects h ! a
       \<and> take (length (arrays h)) (arrays h') = arrays h
       \<and> (isl r \<longrightarrow> h' = h)
       \<and> (\<forall>out. r = Inr out \<longrightarrow>
            out \<noteq> a \<and> (\<exists>m'. view h' out = Some m' \<and> create_meshio_mesh m t pz = Inr m'))"
proof -
  from assms(1) have a: "a < length (objects h)" and p: "points_at (objects h ! a) < length (arrays h)"
    and pm: "arrays h ! points_at (objects h ! a) = points m"
    by (auto simp: view_def split: if_splits)
  show ?thesis
  proof (cases "create_meshio_mesh m t pz")
    case (Inl e)
    with assms have "r = Inl e \<and> h' = h"
      by (auto simp: create_meshio_mesh_at_def create_meshio_mesh_def Let_def
          split: if_splits sum.splits)
    with assms(1) show ?thesis by simp
  next
    case (Inr m')
    then obtain name tags where
      sup: "t \<in> set [''line'', ''triangle'', ''tetra'']"
      and f: "cell_data_dict m ''gmsh:physical'' \<noteq> None"
      and g: "get_cell_data m ''gmsh:physical'' t = Inr tags"
      and d: "data_name m t = Inr name"
      by (auto simp: create_meshio_mesh_def Let_def split: if_splits sum.splits)
    define h1 where "h1 = snd (new_Mesh h (points_at (objects h ! a)) [(t, get_cells_type m t)]
                               [(name, [tags])])"
    define out where "out = length (objects h)"
    have r: "r = Inr out" and h': "h' = (if pz then prune_z_0_at h1 out else h1)"
      using assms sup f g d
      by (auto simp: create_meshio_mesh_at_def Let_def new_Mesh_def h1_def out_def)
    have v1a: "view h1 a = Some m" using a assms(1) by (simp add: h1_def view_new_Mesh_old)
    have v1o: "view h1 out = Some (Mesh (points m) [(t, get_cells_type m t)] [(name, [tags])])"
      using p pm by (simp add: h1_def out_def view_new_Mesh_new)
    have m': "m' = (if pz then prune_z_0 (Mesh (points m) [(t, get_cells_type m t)] [(name, [tags])])
                    else Mesh (points m) [(t, get_cells_type m t)] [(name, [tags])])"
      using Inr create_meshio_mesh_unfold [OF sup f g, of pz] d by simp
    have ne: "out \<noteq> a" using a by (simp add: out_def)
    have lo: "out < length (objects h1)" by (simp add: h1_def out_def new_Mesh_def)
    have o1: "objects h1 ! a = objects h ! a" using a by (simp add: h1_def new_Mesh_def nth_append)
    have a1: "arrays h1 = arrays h" by (simp add: h1_def new_Mesh_def)
    have la: "a < length (objects h1)" using a by (simp add: h1_def new_Mesh_def)
    have "view h' a = Some m"
      using v1a lo ne by (simp add: h' view_prune_other)
    moreover have "objects h' ! a = objects h ! a"
      using o1 la ne by (simp add: h' prune_keeps_objects)
    moreover have "take (length (arrays h)) (arrays h') = arrays h"
      using prune_keeps_arrays [of h1 out] a1 by (simp add: h')
    moreover have "view h' out = Some m'"
      using v1o by (simp add: h' m' view_prune_self)
    ultimately show ?thesis using r ne Inr by simp
  qed
qed

theorem source_mesh_unchanged_witness:
  "view heap_2d 0 = Some mesh_2d
   \<and> fst (create_meshio_mesh_at heap_2d 0 ''triangle'' True) = Inr 1
   \<and> view (snd (create_meshio_mesh_at heap_2d 0 ''triangle'' True)) 0 = Some mesh_2d
   \<and> view (snd (create_meshio_mesh_at heap_2d 0 ''triangle'' True)) 1 =
       Some \<lparr>points = [[0, 0], [1, 0], [0, 1]], cells = [(''triangle'', [[0, 1, 2]])],
          cell_data = [(''cell_markers'', [[1]])]\<rparr>
   \<and> arrays (snd (create_meshio_mesh_at heap_2d 0 ''triangle'' True)) =
       [[[0, 0, 0], [1, 0, 0], [0, 1, 0]], [[0, 0], [1, 0], [0, 1]]]"
proof -
  have v: "view heap_2d 0 = Some mesh_2d"
    by (simp add: heap_2d_def view_def mesh_2d_def)
  have r: "fst (create_meshio_mesh_at heap_2d 0 ''triangle'' True) = Inr 1"
    by (simp add: heap_2d_def view_def create_meshio_mesh_at_def new_Mesh_def
        prune_z_0_at_def eval_defs)
  then have run: "create_meshio_mesh_at heap_2d 0 ''triangle'' True =
      (Inr 1, snd (create_meshio_mesh_at heap_2d 0 ''triangle'' True))"
    by (metis prod.collapse)
  have a: "arrays (snd (create_meshio_mesh_at heap_2d 0 ''triangle'' True)) =
       [[[0, 0, 0], [1, 0, 0], [0, 1, 0]], [[0, 0], [1, 0], [0, 1]]]"
    by (simp add: heap_2d_def view_def create_meshio_mesh_at_def new_Mesh_def
        prune_z_0_at_def eval_defs)
  have c: "create_meshio_mesh mesh_2d ''triangle'' True =
     Inr \<lparr>points = [[0, 0], [1, 0], [0, 1]], cells = [(''triangle'', [[0, 1, 2]])],
          cell_data = [(''cell_markers'', [[1]])]\<rparr>"
    by (simp add: mesh_2d_def eval_defs)
  from source_mesh_unchanged [OF v run] v r a c show ?thesis by auto
qed

end
